theory Spec2Isabelle
  imports Complex_Main "HOL-Library.Word"
begin

unbundle bit_operations_syntax

section \<open>Python values, types and exceptions\<close>

text \<open>
  The module under study is \<^verbatim>\<open>reactpy/core/state_recovery.py\<close>. A Python \<^verbatim>\<open>str\<close> is
  modelled by its UTF-8 encoding, so \<^verbatim>\<open>bytes\<close> and \<^verbatim>\<open>str\<close> are both byte lists and
  \<^verbatim>\<open>.encode("utf-8")\<close> / \<^verbatim>\<open>.decode("utf-8")\<close> are identities.
\<close>

type_synonym bytes = string

text \<open>
  The classes that can occur as dictionary keys of the registry. \<open>PyClass name ancestors fields\<close>
  is a class declared by the application: \<open>ancestors\<close> is the rest of its \<^verbatim>\<open>__mro__\<close> (it ends
  in \<open>PyObject\<close>), \<open>fields\<close> are the names of its dataclass fields.
\<close>

datatype pytype =
    PyNoneType | PyStr | PyInt | PyFloat | PyBool | PyList | PyTuple | PyUUID
  | PyDecimal | PyDatetime | PyDate | PyTime | PyDict | PyObject
  | PyClass string "pytype list" "string list"

text \<open>\<^verbatim>\<open>typ.__mro__\<close>: most specific class first.\<close>

fun mro :: "pytype \<Rightarrow> pytype list" where
  "mro PyObject = [PyObject]"
| "mro PyBool = [PyBool, PyInt, PyObject]"
| "mro PyDatetime = [PyDatetime, PyDate, PyObject]"
| "mro (PyClass n ancestors fields) = PyClass n ancestors fields # ancestors"
| "mro t = [t, PyObject]"

text \<open>
  The values of the model: \<^verbatim>\<open>None\<close>, strings, unbounded integers, booleans, lists, tuples,
  dictionaries with string keys (in insertion order) and instances of application classes
  with their attributes. Floats, UUIDs, decimals and calendar values are not modelled as
  values (their classes are, since the registry lists them).
\<close>

datatype pyval =
    VNone
  | VStr string
  | VInt int
  | VBool bool
  | VList "pyval list"
  | VTuple "pyval list"
  | VDict "(string \<times> pyval) list"
  | VObj pytype "(string \<times> pyval) list"

text \<open>\<^verbatim>\<open>type(obj)\<close>\<close>

fun type_of :: "pyval \<Rightarrow> pytype" where
  "type_of VNone = PyNoneType"
| "type_of (VStr s) = PyStr"
| "type_of (VInt i) = PyInt"
| "type_of (VBool b) = PyBool"
| "type_of (VList xs) = PyList"
| "type_of (VTuple xs) = PyTuple"
| "type_of (VDict kvs) = PyDict"
| "type_of (VObj c attrs) = c"

text \<open>
  The exceptions a call can end with. The first four are the \<^verbatim>\<open>raise\<close> statements of the
  module, told apart by their message:
  \<^item> \<open>NotWhitelisted\<close>: \<^verbatim>\<open>ValueError("Object ... was not white-listed for serialization")\<close>
  \<^item> \<open>TooLong n\<close>: \<^verbatim>\<open>ValueError("Serialized object ... is too long (length: n)")\<close>
  \<^item> \<open>UnknownTypeId i\<close>: \<^verbatim>\<open>StateRecoveryFailureError("Unknown type id i")\<close>
  \<^item> \<open>SignatureMismatch i\<close>: \<^verbatim>\<open>StateRecoveryFailureError("Signature mismatch for type id i")\<close>
  \<^item> \<open>Raised cls\<close>: an exception of class \<open>cls\<close> raised inside a library call, a callback
    or a constructor, which the module does not catch.
\<close>

datatype py_error =
    NotWhitelisted
  | TooLong nat
  | UnknownTypeId bytes
  | SignatureMismatch bytes
  | Raised string


section \<open>The libraries the module calls\<close>

text \<open>
  \<^verbatim>\<open>hashlib\<close>, \<^verbatim>\<open>base64\<close>, \<^verbatim>\<open>orjson\<close>, \<^verbatim>\<open>pyotp\<close>, \<^verbatim>\<open>time\<close>, the file system and the
  constructors of the registered classes are not part of the module. Its functions take
  them as a parameter:
  \<^item> \<open>sha256_hexdigest b\<close>: \<^verbatim>\<open>hashlib.sha256(b).hexdigest()\<close>
  \<^item> \<open>orjson_dumps default obj\<close>: \<^verbatim>\<open>orjson.dumps(obj, default=default)\<close>
  \<^item> \<open>call_type typ args kwargs\<close>: \<^verbatim>\<open>typ(*args, **kwargs)\<close>
  \<^item> \<open>TOTP_at key interval t\<close>: \<^verbatim>\<open>pyotp.TOTP(key, interval=interval).at(t)\<close>
  \<^item> \<open>time_time\<close>: what \<^verbatim>\<open>time.time()\<close> returns at the call
  \<^item> \<open>iterdir\<close>: for each entry of the directory \<^verbatim>\<open>_discover_otp_key\<close> lists, its name and
    \<^verbatim>\<open>str(thing.stat().st_ctime)\<close>
\<close>

record runtime =
  sha256_hexdigest :: "bytes \<Rightarrow> string"
  urlsafe_b64encode :: "bytes \<Rightarrow> bytes"
  urlsafe_b64decode :: "string \<Rightarrow> py_error + bytes"
  b32encode :: "bytes \<Rightarrow> bytes"
  orjson_dumps :: "(pyval \<Rightarrow> py_error + pyval) option \<Rightarrow> pyval \<Rightarrow> py_error + bytes"
  orjson_loads :: "bytes \<Rightarrow> py_error + pyval"
  call_type :: "pytype \<Rightarrow> pyval list \<Rightarrow> (string \<times> pyval) list \<Rightarrow> py_error + pyval"
  TOTP_at :: "bytes \<Rightarrow> int \<Rightarrow> real \<Rightarrow> py_error + string"
  time_time :: real
  iterdir :: "(string \<times> string) list"

section \<open>StateRecoveryManager\<close>

text \<open>\<^verbatim>\<open>str(idx)\<close> of a non-negative integer: its decimal digits.\<close>

function str_nat :: "nat \<Rightarrow> string" where
  "str_nat n =
     (if n < 10 then [''0123456789'' ! n]
      else str_nat (n div 10) @ [''0123456789'' ! (n mod 10)])"
  by pat_completeness auto
termination
  by (relation "measure id") auto

declare str_nat.simps [simp del]

text \<open>
  The registry: \<^verbatim>\<open>_object_to_type_id\<close> and \<^verbatim>\<open>_type_id_to_object\<close>. A key of the first is
  \<^verbatim>\<open>None\<close> (here \<open>None\<close>) or a class (here \<open>Some t\<close>).
\<close>

type_synonym object_to_type_id_map = "pytype option \<rightharpoonup> bytes"
type_synonym type_id_to_object_map = "bytes \<rightharpoonup> pytype option"

text \<open>
  The loop of \<^verbatim>\<open>_map_objects_to_ids\<close> over \<^verbatim>\<open>enumerate(...)\<close>, from index \<open>idx\<close> on: a later
  entry overwrites an earlier one with the same key.
\<close>

fun map_objects_loop ::
  "nat \<Rightarrow> pytype option list \<Rightarrow> object_to_type_id_map \<times> type_id_to_object_map
     \<Rightarrow> object_to_type_id_map \<times> type_id_to_object_map" where
  "map_objects_loop idx [] maps = maps"
| "map_objects_loop idx (typ # rest) (o2i, i2o) =
     (let idx_as_bytes = str_nat idx
      in map_objects_loop (Suc idx) rest (o2i(typ \<mapsto> idx_as_bytes), i2o(idx_as_bytes \<mapsto> typ)))"

definition builtin_objects :: "pytype option list" where
  "builtin_objects =
     [None, Some PyStr, Some PyInt, Some PyFloat, Some PyBool, Some PyList, Some PyTuple,
      Some PyUUID]"

definition map_objects_to_ids ::
  "pytype list \<Rightarrow> object_to_type_id_map \<times> type_id_to_object_map" where
  "map_objects_to_ids serializable_objects =
     map_objects_loop 0 (builtin_objects @ map Some serializable_objects) (Map.empty, Map.empty)"

text \<open>\<^verbatim>\<open>_discover_otp_key\<close>: one hasher, updated with name and creation time of each entry.\<close>

definition discover_otp_key :: "runtime \<Rightarrow> string" where
  "discover_otp_key rt =
     sha256_hexdigest rt (concat (map (\<lambda>(name, ctime). name @ ctime) (iterdir rt)))"

record manager =
  m_pepper :: string
  m_max_objects :: int
  m_max_object_length :: int
  m_otp_key :: bytes
  m_otp_interval :: int
  m_default_serializer :: "(pyval \<Rightarrow> py_error + pyval) option"
  m_deserializer_map :: "pytype \<rightharpoonup> (pyval \<Rightarrow> py_error + pyval)"
  m_object_to_type_id :: object_to_type_id_map
  m_type_id_to_object :: type_id_to_object_map

text \<open>The defaults of the constructor's keyword arguments.\<close>

definition default_otp_interval :: int where
  "default_otp_interval = 4 * 60 * 60"

definition default_max_objects :: int where
  "default_max_objects = 256"

definition default_max_object_length :: int where
  "default_max_object_length = 40000"

text \<open>
  \<^verbatim>\<open>StateRecoveryManager.__init__\<close>. The body has no \<^verbatim>\<open>raise\<close> and calls nothing that
  validates its arguments: it returns the manager. \<^verbatim>\<open>otp_key or self._discover_otp_key()\<close>
  takes the discovered key for \<^verbatim>\<open>None\<close> and for the empty string; \<^verbatim>\<open>deserializer_map or {}\<close>
  is the empty map for \<^verbatim>\<open>None\<close>. The TOTP object is its key and its interval.
\<close>

definition StateRecoveryManager_init ::
  "runtime \<Rightarrow> pytype list \<Rightarrow> string \<Rightarrow> string option \<Rightarrow> int \<Rightarrow> int \<Rightarrow> int
     \<Rightarrow> (pyval \<Rightarrow> py_error + pyval) option
     \<Rightarrow> (pytype \<rightharpoonup> (pyval \<Rightarrow> py_error + pyval)) option \<Rightarrow> py_error + manager" where
  "StateRecoveryManager_init rt serializable_objects pepper otp_key otp_interval max_objects
       max_object_length default_serializer deserializer_map =
     (let key = (case otp_key of
                   None \<Rightarrow> discover_otp_key rt
                 | Some k \<Rightarrow> if k \<noteq> [] then k else discover_otp_key rt);
          (o2i, i2o) = map_objects_to_ids
                         (serializable_objects @ [PyDecimal, PyDatetime, PyDate, PyTime])
      in Inr \<lparr> m_pepper = pepper,
               m_max_objects = max_objects,
               m_max_object_length = max_object_length,
               m_otp_key = b32encode rt key,
               m_otp_interval = otp_interval,
               m_default_serializer = default_serializer,
               m_deserializer_map = (case deserializer_map of None \<Rightarrow> Map.empty | Some d \<Rightarrow> d),
               m_object_to_type_id = o2i,
               m_type_id_to_object = i2o \<rparr>)"

section \<open>StateRecoverySerializer\<close>

record serializer =
  otp_code :: bytes
  pepper :: bytes
  salt :: bytes
  object_to_type_id :: object_to_type_id_map
  type_id_to_object :: type_id_to_object_map
  max_object_length :: int
  default_serializer :: "(pyval \<Rightarrow> py_error + pyval) option"
  deserializer_map :: "pytype \<rightharpoonup> (pyval \<Rightarrow> py_error + pyval)"

text \<open>
  \<^verbatim>\<open>create_serializer\<close>: \<^verbatim>\<open>target_time or time.time()\<close> takes the clock for \<^verbatim>\<open>None\<close> and
  for a number equal to zero. What \<^verbatim>\<open>self._totp.at\<close> raises is not caught.
\<close>

definition create_serializer ::
  "runtime \<Rightarrow> manager \<Rightarrow> string \<Rightarrow> real option \<Rightarrow> py_error + serializer" where
  "create_serializer rt m salt' target_time =
     (case TOTP_at rt (m_otp_key m) (m_otp_interval m)
             (case target_time of
                None \<Rightarrow> time_time rt
              | Some t \<Rightarrow> if t \<noteq> 0 then t else time_time rt) of
        Inl e \<Rightarrow> Inl e
      | Inr code \<Rightarrow>
          Inr \<lparr> otp_code = code,
                pepper = m_pepper m,
                salt = salt',
                object_to_type_id = m_object_to_type_id m,
                type_id_to_object = m_type_id_to_object m,
                max_object_length = m_max_object_length m,
                default_serializer = m_default_serializer m,
                deserializer_map = m_deserializer_map m \<rparr>)"

text \<open>A wire token: \<^verbatim>\<open>(type_id, data, signature)\<close>.\<close>

type_synonym token = "string \<times> string \<times> string"

text \<open>
  \<^verbatim>\<open>_sign_serialization\<close>: six updates of one hasher, in this order. The digest is the one
  of the concatenation of what the updates feed.
\<close>

definition signed_message :: "serializer \<Rightarrow> string \<Rightarrow> bytes \<Rightarrow> bytes \<Rightarrow> bytes" where
  "signed_message s key type_id data = type_id @ data @ pepper s @ otp_code s @ salt s @ key"

definition sign_serialization :: "runtime \<Rightarrow> serializer \<Rightarrow> string \<Rightarrow> bytes \<Rightarrow> bytes \<Rightarrow> string" where
  "sign_serialization rt s key type_id data = sha256_hexdigest rt (signed_message s key type_id data)"

definition serialize_object :: "runtime \<Rightarrow> serializer \<Rightarrow> pyval \<Rightarrow> py_error + bytes" where
  "serialize_object rt s obj = orjson_dumps rt (default_serializer s) obj"

text \<open>
  \<^verbatim>\<open>_deserialize_object\<close>. A function object is truthy, so \<^verbatim>\<open>if custom_deserializer\<close> tests
  that the map has the key. \<^verbatim>\<open>orjson.loads\<close> returns values of the built-in classes only,
  for which \<^verbatim>\<open>isinstance(result, str)\<close> and \<^verbatim>\<open>isinstance(result, dict)\<close> are the two cases
  below.
\<close>

definition deserialize_object ::
  "runtime \<Rightarrow> serializer \<Rightarrow> pytype option \<Rightarrow> bytes \<Rightarrow> py_error + pyval" where
  "deserialize_object rt s typ data =
     (case typ of
        None \<Rightarrow> Inr VNone
      | Some t \<Rightarrow>
          (case orjson_loads rt data of
             Inl e \<Rightarrow> Inl e
           | Inr result \<Rightarrow>
               (case deserializer_map s t of
                  Some custom_deserializer \<Rightarrow> custom_deserializer result
                | None \<Rightarrow>
                    (case result of
                       VStr x \<Rightarrow> call_type rt t [result] []
                     | VDict kwargs \<Rightarrow> call_type rt t [] kwargs
                     | _ \<Rightarrow> Inr result))))"

text \<open>
  The \<^verbatim>\<open>for t in obj_type.__mro__ ... else: raise\<close> loop of \<^verbatim>\<open>_serialize\<close>: \<^verbatim>\<open>if type_id\<close>
  holds for an identifier that is present and not the empty byte string.
\<close>

fun lookup_type_id :: "object_to_type_id_map \<Rightarrow> pytype list \<Rightarrow> py_error + bytes" where
  "lookup_type_id o2i [] = Inl NotWhitelisted"
| "lookup_type_id o2i (t # ts) =
     (case o2i (Some t) of
        Some type_id \<Rightarrow> if type_id \<noteq> [] then Inr type_id else lookup_type_id o2i ts
      | None \<Rightarrow> lookup_type_id o2i ts)"

definition serialize :: "runtime \<Rightarrow> serializer \<Rightarrow> string \<Rightarrow> pyval \<Rightarrow> py_error + token" where
  "serialize rt s key obj =
     (if obj = VNone then Inr (''0'', '''', '''')
      else
        (case lookup_type_id (object_to_type_id s) (mro (type_of obj)) of
           Inl e \<Rightarrow> Inl e
         | Inr type_id \<Rightarrow>
             (case serialize_object rt s obj of
                Inl e \<Rightarrow> Inl e
              | Inr result \<Rightarrow>
                  if int (length result) > max_object_length s
                  then Inl (TooLong (length result))
                  else
                    (let signature = sign_serialization rt s key type_id result
                     in Inr (type_id, urlsafe_b64encode rt result, signature)))))"

definition deserialize ::
  "runtime \<Rightarrow> serializer \<Rightarrow> string \<Rightarrow> bytes \<Rightarrow> string \<Rightarrow> string \<Rightarrow> py_error + pyval" where
  "deserialize rt s key type_id data signature =
     (if type_id = ''0'' then Inr VNone
      else
        (case type_id_to_object s type_id of
           None \<Rightarrow> Inl (UnknownTypeId type_id)
         | Some typ \<Rightarrow>
             (case urlsafe_b64decode rt data of
                Inl e \<Rightarrow> Inl e
              | Inr result \<Rightarrow>
                  (let expected_signature = sign_serialization rt s key type_id result
                   in if expected_signature \<noteq> signature
                      then Inl (SignatureMismatch type_id)
                      else deserialize_object rt s typ result))))"

text \<open>
  A Python \<^verbatim>\<open>dict\<close> with string keys, in insertion order; \<^verbatim>\<open>result[key] = value\<close> replaces
  the value of a key that is present and appends a new key.
\<close>

fun dict_setitem :: "('k \<times> 'v) list \<Rightarrow> 'k \<Rightarrow> 'v \<Rightarrow> ('k \<times> 'v) list" where
  "dict_setitem [] k v = [(k, v)]"
| "dict_setitem ((k', v') # rest) k v =
     (if k' = k then (k, v) # rest else (k', v') # dict_setitem rest k v)"

text \<open>\<^verbatim>\<open>serialize_state_vars\<close>: the loop over \<^verbatim>\<open>state_vars.items()\<close>, \<open>result\<close> built so far.\<close>

fun serialize_loop ::
  "runtime \<Rightarrow> serializer \<Rightarrow> (string \<times> pyval) list \<Rightarrow> (string \<times> token) list
     \<Rightarrow> py_error + (string \<times> token) list" where
  "serialize_loop rt s [] result = Inr result"
| "serialize_loop rt s ((key, value) # rest) result =
     (case serialize rt s key value of
        Inl e \<Rightarrow> Inl e
      | Inr tok \<Rightarrow> serialize_loop rt s rest (dict_setitem result key tok))"

definition serialize_state_vars ::
  "runtime \<Rightarrow> serializer \<Rightarrow> (string \<times> pyval) list \<Rightarrow> py_error + (string \<times> token) list" where
  "serialize_state_vars rt s state_vars = serialize_loop rt s state_vars []"

text \<open>\<^verbatim>\<open>deserialize_client_state\<close>: the dictionary comprehension over \<^verbatim>\<open>state_vars.items()\<close>.\<close>

fun deserialize_loop ::
  "runtime \<Rightarrow> serializer \<Rightarrow> (string \<times> token) list \<Rightarrow> (string \<times> pyval) list
     \<Rightarrow> py_error + (string \<times> pyval) list" where
  "deserialize_loop rt s [] result = Inr result"
| "deserialize_loop rt s ((key, (type_id, data, signature)) # rest) result =
     (case deserialize rt s key type_id data signature of
        Inl e \<Rightarrow> Inl e
      | Inr v \<Rightarrow> deserialize_loop rt s rest (dict_setitem result key v))"

definition deserialize_client_state ::
  "runtime \<Rightarrow> serializer \<Rightarrow> (string \<times> token) list \<Rightarrow> py_error + (string \<times> pyval) list" where
  "deserialize_client_state rt s state_vars = deserialize_loop rt s state_vars []"

section \<open>A reference runtime\<close>

text \<open>
  The closed examples below run the module on a runtime that follows the libraries'
  documented behaviour: SHA-256 and SHA-1 (FIPS 180-4), HMAC and HOTP (RFC 2104, RFC 4226)
  as \<^verbatim>\<open>pyotp\<close> uses them, base32 and base64 (RFC 4648) with the decoder of CPython's
  \<^verbatim>\<open>binascii\<close>, and a JSON encoder and decoder for the values of the model.
\<close>

subsection \<open>hashlib\<close>

definition be_bytes :: "nat \<Rightarrow> 'a::len word \<Rightarrow> bytes" where
  "be_bytes k w = map (\<lambda>i. char_of (unat (drop_bit (8 * (k - 1 - i)) w AND 255))) [0..<k]"

definition be_word :: "bytes \<Rightarrow> 32 word" where
  "be_word bs = foldl (\<lambda>w c. push_bit 8 w OR of_char c) 0 bs"

fun words_of_bytes :: "bytes \<Rightarrow> 32 word list" where
  "words_of_bytes (a # b # c # d # rest) = be_word [a, b, c, d] # words_of_bytes rest"
| "words_of_bytes rest = []"

function blocks_of :: "'a list \<Rightarrow> 'a list list" where
  "blocks_of ws = (if ws = [] then [] else take 16 ws # blocks_of (drop 16 ws))"
  by pat_completeness auto
termination
  by (relation "measure length") auto

definition sha_pad :: "bytes \<Rightarrow> bytes" where
  "sha_pad m =
     m @ [char_of (128::nat)] @ replicate ((119 - length m mod 64) mod 64) (char_of (0::nat))
       @ be_bytes 8 (of_nat (8 * length m) :: 64 word)"

definition Ch :: "32 word \<Rightarrow> 32 word \<Rightarrow> 32 word \<Rightarrow> 32 word" where
  "Ch x y z = (x AND y) XOR (NOT x AND z)"
definition Maj :: "32 word \<Rightarrow> 32 word \<Rightarrow> 32 word \<Rightarrow> 32 word" where
  "Maj x y z = (x AND y) XOR (x AND z) XOR (y AND z)"
definition Parity :: "32 word \<Rightarrow> 32 word \<Rightarrow> 32 word \<Rightarrow> 32 word" where
  "Parity x y z = x XOR y XOR z"

definition big_sigma0 :: "32 word \<Rightarrow> 32 word" where
  "big_sigma0 x = word_rotr 2 x XOR word_rotr 13 x XOR word_rotr 22 x"
definition big_sigma1 :: "32 word \<Rightarrow> 32 word" where
  "big_sigma1 x = word_rotr 6 x XOR word_rotr 11 x XOR word_rotr 25 x"
definition small_sigma0 :: "32 word \<Rightarrow> 32 word" where
  "small_sigma0 x = word_rotr 7 x XOR word_rotr 18 x XOR drop_bit 3 x"
definition small_sigma1 :: "32 word \<Rightarrow> 32 word" where
  "small_sigma1 x = word_rotr 17 x XOR word_rotr 19 x XOR drop_bit 10 x"

type_synonym sha256_state = "32 word \<times> 32 word \<times> 32 word \<times> 32 word \<times> 32 word \<times> 32 word \<times> 32 word \<times> 32 word"

definition sha256_K :: "32 word list" where
  "sha256_K = map of_nat
    [1116352408, 1899447441, 3049323471, 3921009573, 961987163, 1508970993, 2453635748, 2870763221, 3624381080, 310598401, 607225278, 1426881987, 1925078388, 2162078206, 2614888103, 3248222580, 3835390401, 4022224774, 264347078, 604807628, 770255983, 1249150122, 1555081692, 1996064986, 2554220882, 2821834349, 2952996808, 3210313671, 3336571891, 3584528711, 113926993, 338241895, 666307205, 773529912, 1294757372, 1396182291, 1695183700, 1986661051, 2177026350, 2456956037, 2730485921, 2820302411, 3259730800, 3345764771, 3516065817, 3600352804, 4094571909, 275423344, 430227734, 506948616, 659060556, 883997877, 958139571, 1322822218, 1537002063, 1747873779, 1955562222, 2024104815, 2227730452, 2361852424, 2428436474, 2756734187, 3204031479, 3329325298]"

definition sha256_H0 :: sha256_state where
  "sha256_H0 =
    (1779033703, 3144134277, 1013904242, 2773480762, 1359893119, 2600822924, 528734635, 1541459225)"

fun sha256_schedule :: "nat \<Rightarrow> 32 word list \<Rightarrow> 32 word list" where
  "sha256_schedule 0 w = w"
| "sha256_schedule (Suc k) w =
     (let t = length w
      in sha256_schedule k
           (w @ [small_sigma1 (w ! (t - 2)) + w ! (t - 7) + small_sigma0 (w ! (t - 15)) + w ! (t - 16)]))"

fun sha256_round :: "sha256_state \<Rightarrow> 32 word \<times> 32 word \<Rightarrow> sha256_state" where
  "sha256_round (a, b, c, d, e, f, g, h) (k, w) =
     (let T1 = h + big_sigma1 e + Ch e f g + k + w;
          T2 = big_sigma0 a + Maj a b c
      in (T1 + T2, a, b, c, d + T1, e, f, g))"

fun sha256_add :: "sha256_state \<Rightarrow> sha256_state \<Rightarrow> sha256_state" where
  "sha256_add (a, b, c, d, e, f, g, h) (a', b', c', d', e', f', g', h') =
     (a + a', b + b', c + c', d + d', e + e', f + f', g + g', h + h')"

definition sha256_compress :: "sha256_state \<Rightarrow> 32 word list \<Rightarrow> sha256_state" where
  "sha256_compress H block =
     sha256_add H (foldl sha256_round H (zip sha256_K (sha256_schedule 48 block)))"

definition sha256 :: "bytes \<Rightarrow> sha256_state" where
  "sha256 m = foldl sha256_compress sha256_H0 (blocks_of (words_of_bytes (sha_pad m)))"

definition hex_word :: "32 word \<Rightarrow> string" where
  "hex_word w = map (\<lambda>i. ''0123456789abcdef'' ! unat (drop_bit (4 * (7 - i)) w AND 15)) [0..<8]"

definition sha256_hex :: "bytes \<Rightarrow> string" where
  "sha256_hex m =
     (case sha256 m of (a, b, c, d, e, f, g, h) \<Rightarrow> concat (map hex_word [a, b, c, d, e, f, g, h]))"



definition digest_bytes :: "32 word list \<Rightarrow> bytes" where
  "digest_bytes ws = concat (map (be_bytes 4) ws)"

type_synonym sha1_state = "32 word \<times> 32 word \<times> 32 word \<times> 32 word \<times> 32 word"

fun sha1_schedule :: "nat \<Rightarrow> 32 word list \<Rightarrow> 32 word list" where
  "sha1_schedule 0 w = w"
| "sha1_schedule (Suc k) w =
     (let t = length w
      in sha1_schedule k
           (w @ [word_rotl 1 (w ! (t - 3) XOR w ! (t - 8) XOR w ! (t - 14) XOR w ! (t - 16))]))"

definition sha1_f :: "nat \<Rightarrow> 32 word \<Rightarrow> 32 word \<Rightarrow> 32 word \<Rightarrow> 32 word" where
  "sha1_f t x y z =
     (if t < 20 then Ch x y z else if t < 40 then Parity x y z
      else if t < 60 then Maj x y z else Parity x y z)"

definition sha1_K :: "nat \<Rightarrow> 32 word" where
  "sha1_K t =
     (if t < 20 then 1518500249 else if t < 40 then 1859775393
      else if t < 60 then 2400959708 else 3395469782)"

fun sha1_round :: "sha1_state \<Rightarrow> nat \<times> 32 word \<Rightarrow> sha1_state" where
  "sha1_round (a, b, c, d, e) (t, w) =
     (word_rotl 5 a + sha1_f t b c d + e + sha1_K t + w, a, word_rotl 30 b, c, d)"

fun sha1_add :: "sha1_state \<Rightarrow> sha1_state \<Rightarrow> sha1_state" where
  "sha1_add (a, b, c, d, e) (a', b', c', d', e') = (a + a', b + b', c + c', d + d', e + e')"

definition sha1_compress :: "sha1_state \<Rightarrow> 32 word list \<Rightarrow> sha1_state" where
  "sha1_compress H block =
     sha1_add H (foldl sha1_round H (zip [0..<80] (sha1_schedule 64 block)))"

definition sha1 :: "bytes \<Rightarrow> bytes" where
  "sha1 m =
     (case foldl sha1_compress (1732584193, 4023233417, 2562383102, 271733878, 3285377520)
             (blocks_of (words_of_bytes (sha_pad m))) of
        (a, b, c, d, e) \<Rightarrow> digest_bytes [a, b, c, d, e])"

definition xor_bytes :: "nat \<Rightarrow> bytes \<Rightarrow> bytes" where
  "xor_bytes p bs = map (\<lambda>c. char_of ((of_char c :: nat) XOR p)) bs"

definition hmac_sha1 :: "bytes \<Rightarrow> bytes \<Rightarrow> bytes" where
  "hmac_sha1 key msg =
     (let k = (if length key > 64 then sha1 key else key);
          k0 = k @ replicate (64 - length k) (char_of (0::nat))
      in sha1 (xor_bytes 92 k0 @ sha1 (xor_bytes 54 k0 @ msg)))"

text \<open>RFC 4226: dynamic truncation of the HMAC to 31 bits, then six decimal digits.\<close>

definition hotp :: "bytes \<Rightarrow> 64 word \<Rightarrow> string" where
  "hotp key counter =
     (let h = hmac_sha1 key (be_bytes 8 counter);
          offset = (of_char (last h) :: nat) mod 16;
          code = be_word (take 4 (drop offset h)) AND 2147483647;
          n = unat code mod 1000000
      in map (\<lambda>i. ''0123456789'' ! (n div 10 ^ (5 - i) mod 10)) [0..<6])"

subsection \<open>base64\<close>

definition bits_of_bytes :: "bytes \<Rightarrow> bool list" where
  "bits_of_bytes bs = concat (map (\<lambda>c. map (\<lambda>i. bit (of_char c :: nat) (7 - i)) [0..<8]) bs)"

definition nat_of_bits :: "bool list \<Rightarrow> nat" where
  "nat_of_bits bs = foldl (\<lambda>n b. 2 * n + (if b then 1 else 0)) 0 bs"

function chop :: "nat \<Rightarrow> 'a list \<Rightarrow> 'a list list" where
  "chop k xs = (if xs = [] \<or> k = 0 then [] else take k xs # chop k (drop k xs))"
  by pat_completeness auto
termination
  by (relation "measure (\<lambda>(k, xs). length xs)") auto

definition base_encode :: "nat \<Rightarrow> nat \<Rightarrow> string \<Rightarrow> bytes \<Rightarrow> bytes" where
  "base_encode k quantum alphabet bs =
     (let cs = map (\<lambda>g. alphabet ! nat_of_bits (g @ replicate (k - length g) False))
                 (chop k (bits_of_bytes bs))
      in cs @ replicate ((quantum - length cs mod quantum) mod quantum) CHR ''='')"

definition b32_alphabet :: string where
  "b32_alphabet = ''ABCDEFGHIJKLMNOPQRSTUVWXYZ234567''"

definition b64_urlsafe_alphabet :: string where
  "b64_urlsafe_alphabet = ''ABCDEFGHIJKLMNOPQRSTUVWXYZabcdefghijklmnopqrstuvwxyz0123456789-_''"

definition base64_b32encode :: "bytes \<Rightarrow> bytes" where
  "base64_b32encode bs = base_encode 5 8 b32_alphabet bs"

definition base64_urlsafe_b64encode :: "bytes \<Rightarrow> bytes" where
  "base64_urlsafe_b64encode bs = base_encode 6 4 b64_urlsafe_alphabet bs"

fun index_of :: "'a \<Rightarrow> 'a list \<Rightarrow> nat option" where
  "index_of c [] = None"
| "index_of c (x # xs) = (if c = x then Some 0 else map_option Suc (index_of c xs))"

definition b64_value :: "char \<Rightarrow> nat option" where
  "b64_value c =
     (if c = CHR ''+'' then Some 62 else if c = CHR ''/'' then Some 63
      else index_of c b64_urlsafe_alphabet)"

fun a2b_base64 :: "string \<Rightarrow> nat \<Rightarrow> nat \<Rightarrow> nat \<Rightarrow> bytes \<Rightarrow> py_error + bytes" where
  "a2b_base64 [] quad_pos leftchar pads bin_data =
     (if quad_pos \<noteq> 0 then Inl (Raised ''binascii.Error'') else Inr bin_data)"
| "a2b_base64 (this_ch # rest) quad_pos leftchar pads bin_data =
     (if this_ch = CHR ''='' then
        (if quad_pos \<ge> 2 \<and> quad_pos + (pads + 1) \<ge> 4 then Inr bin_data
         else a2b_base64 rest quad_pos leftchar (if quad_pos \<ge> 2 then pads + 1 else pads) bin_data)
      else
        (case b64_value this_ch of
           None \<Rightarrow> a2b_base64 rest quad_pos leftchar pads bin_data
         | Some v \<Rightarrow>
             (if quad_pos = 0 then a2b_base64 rest 1 v 0 bin_data
              else if quad_pos = 1 then
                a2b_base64 rest 2 (v mod 16) 0 (bin_data @ [char_of (leftchar * 4 + v div 16)])
              else if quad_pos = 2 then
                a2b_base64 rest 3 (v mod 4) 0 (bin_data @ [char_of (leftchar * 16 + v div 4)])
              else a2b_base64 rest 0 0 0 (bin_data @ [char_of (leftchar * 64 + v)]))))"

definition base64_urlsafe_b64decode :: "string \<Rightarrow> py_error + bytes" where
  "base64_urlsafe_b64decode s =
     (if \<exists>c \<in> set s. (of_char c :: nat) \<ge> 128 then Inl (Raised ''ValueError'')
      else a2b_base64 s 0 0 0 [])"

subsection \<open>orjson\<close>

text \<open>
  \<^verbatim>\<open>orjson.dumps\<close> writes compact JSON: no white space, strings in UTF-8 with the quote, the
  backslash and the control characters escaped, a tuple as an array, a dataclass instance
  as the object of its fields. Every value of the model is encodable without the \<open>default\<close>
  callback, but for an integer outside 64 bits (\<^verbatim>\<open>JSONEncodeError\<close>, a \<^verbatim>\<open>TypeError\<close>).
\<close>

definition hex_digit :: "nat \<Rightarrow> char" where
  "hex_digit n = ''0123456789abcdef'' ! n"

definition json_escape :: "char \<Rightarrow> string" where
  "json_escape c =
     (let n = (of_char c :: nat)
      in if n = 34 then [CHR 0x5C, CHR 0x22]
         else if n = 92 then [CHR 0x5C, CHR 0x5C]
         else if n = 8 then [CHR 0x5C, CHR ''b'']
         else if n = 9 then [CHR 0x5C, CHR ''t'']
         else if n = 10 then [CHR 0x5C, CHR ''n'']
         else if n = 12 then [CHR 0x5C, CHR ''f'']
         else if n = 13 then [CHR 0x5C, CHR ''r'']
         else if n < 32 then [CHR 0x5C, CHR ''u'', CHR ''0'', CHR ''0'', hex_digit (n div 16), hex_digit (n mod 16)]
         else [c])"

definition json_string :: "string \<Rightarrow> string" where
  "json_string s = [CHR 0x22] @ concat (map json_escape s) @ [CHR 0x22]"

definition str_int :: "int \<Rightarrow> string" where
  "str_int i = (if i < 0 then CHR ''-'' # str_nat (nat (- i)) else str_nat (nat i))"

fun intersperse :: "'a list \<Rightarrow> 'a list list \<Rightarrow> 'a list" where
  "intersperse sep [] = []"
| "intersperse sep [x] = x"
| "intersperse sep (x # y # ys) = x @ sep @ intersperse sep (y # ys)"

fun json_text :: "pyval \<Rightarrow> string" where
  "json_text VNone = ''null''"
| "json_text (VBool b) = (if b then ''true'' else ''false'')"
| "json_text (VInt i) = str_int i"
| "json_text (VStr s) = json_string s"
| "json_text (VList xs) = ''['' @ intersperse '','' (map json_text xs) @ '']''"
| "json_text (VTuple xs) = ''['' @ intersperse '','' (map json_text xs) @ '']''"
| "json_text (VDict kvs) =
     ''{'' @ intersperse '','' (map (\<lambda>(k, v). json_string k @ '':'' @ json_text v) kvs) @ ''}''"
| "json_text (VObj c attrs) =
     ''{'' @ intersperse '','' (map (\<lambda>(k, v). json_string k @ '':'' @ json_text v) attrs) @ ''}''"

fun ints_in_range :: "pyval \<Rightarrow> bool" where
  "ints_in_range (VInt i) = (- (2 ^ 63) \<le> i \<and> i < 2 ^ 64)"
| "ints_in_range (VList xs) = list_all ints_in_range xs"
| "ints_in_range (VTuple xs) = list_all ints_in_range xs"
| "ints_in_range (VDict kvs) = list_all (\<lambda>(k, v). ints_in_range v) kvs"
| "ints_in_range (VObj c attrs) = list_all (\<lambda>(k, v). ints_in_range v) attrs"
| "ints_in_range v = True"

definition orjson_dumps_impl ::
  "(pyval \<Rightarrow> py_error + pyval) option \<Rightarrow> pyval \<Rightarrow> py_error + bytes" where
  "orjson_dumps_impl default_callback obj =
     (if ints_in_range obj then Inr (json_text obj) else Inl (Raised ''TypeError''))"

text \<open>
  \<^verbatim>\<open>orjson.loads\<close>, for JSON text without fractions, exponents and \<^verbatim>\<open>\u\<close> escapes beyond
  ASCII (their values are floats and characters the model does not have: the decoder here
  reports them as undecodable). It returns \<^verbatim>\<open>None\<close>, \<^verbatim>\<open>bool\<close>, \<^verbatim>\<open>int\<close>, \<^verbatim>\<open>str\<close>, \<^verbatim>\<open>list\<close>
  and \<^verbatim>\<open>dict\<close> values only; a repeated key keeps its first position and its last value.
  The first argument of the parsing functions bounds the number of nested calls.
\<close>

definition is_ws :: "char \<Rightarrow> bool" where
  "is_ws c = (c = CHR 0x20 \<or> c = CHR 0x09 \<or> c = CHR 0x0A \<or> c = CHR 0x0D)"

fun skip_ws :: "string \<Rightarrow> string" where
  "skip_ws [] = []"
| "skip_ws (c # cs) = (if is_ws c then skip_ws cs else c # cs)"

definition is_digit :: "char \<Rightarrow> bool" where
  "is_digit c = (48 \<le> (of_char c :: nat) \<and> (of_char c :: nat) \<le> 57)"

definition digits_value :: "string \<Rightarrow> int" where
  "digits_value ds = foldl (\<lambda>n c. 10 * n + (of_char c - 48)) 0 ds"

definition json_unescape :: "char \<Rightarrow> char option" where
  "json_unescape e =
     (if e = CHR 0x22 \<or> e = CHR 0x5C \<or> e = CHR ''/'' then Some e
      else if e = CHR ''b'' then Some (CHR 0x08)
      else if e = CHR ''t'' then Some (CHR 0x09)
      else if e = CHR ''n'' then Some (CHR 0x0A)
      else if e = CHR ''f'' then Some (CHR 0x0C)
      else if e = CHR ''r'' then Some (CHR 0x0D)
      else None)"

definition hex_value :: "char \<Rightarrow> nat option" where
  "hex_value c =
     (case index_of c ''0123456789abcdef'' of
        Some n \<Rightarrow> Some n
      | None \<Rightarrow> map_option (\<lambda>n. n + 10) (index_of c ''ABCDEF''))"

definition hex4_value :: "char \<Rightarrow> char \<Rightarrow> char \<Rightarrow> char \<Rightarrow> nat option" where
  "hex4_value h1 h2 h3 h4 =
     (case hex_value h1 of None \<Rightarrow> None | Some a \<Rightarrow>
      (case hex_value h2 of None \<Rightarrow> None | Some b \<Rightarrow>
       (case hex_value h3 of None \<Rightarrow> None | Some c \<Rightarrow>
        (case hex_value h4 of None \<Rightarrow> None | Some d \<Rightarrow>
           Some (((a * 16 + b) * 16 + c) * 16 + d)))))"

fun parse_string :: "string \<Rightarrow> string \<Rightarrow> (string \<times> string) option" where
  "parse_string [] acc = None"
| "parse_string (c # cs) acc =
     (if c = CHR 0x22 then Some (acc, cs)
      else if c = CHR 0x5C then
        (case cs of
           [] \<Rightarrow> None
         | e # cs' \<Rightarrow>
             if e = CHR ''u'' then
               (case cs' of
                  h1 # h2 # h3 # h4 # cs'' \<Rightarrow>
                    (case hex4_value h1 h2 h3 h4 of
                       None \<Rightarrow> None
                     | Some n \<Rightarrow>
                         if n < 128 then parse_string cs'' (acc @ [char_of n]) else None)
                | _ \<Rightarrow> None)
             else
               (case json_unescape e of
                  None \<Rightarrow> None
                | Some ch \<Rightarrow> parse_string cs' (acc @ [ch])))
      else if (of_char c :: nat) < 32 then None
      else parse_string cs (acc @ [c]))"

definition parse_int :: "string \<Rightarrow> (pyval \<times> string) option" where
  "parse_int s =
     (let neg = (s \<noteq> [] \<and> hd s = CHR ''-'');
          r = (if neg then tl s else s);
          ds = takeWhile is_digit r;
          rest = dropWhile is_digit r;
          n = digits_value ds
      in if ds = [] then None
         else if length ds > 1 \<and> hd ds = CHR ''0'' then None
         else if rest \<noteq> [] \<and> (hd rest = CHR ''.'' \<or> hd rest = CHR ''e'' \<or> hd rest = CHR ''E'')
           then None
         else if (neg \<and> n > 2 ^ 63) \<or> (\<not> neg \<and> n \<ge> 2 ^ 64) then None
         else Some (VInt (if neg then - n else n), rest))"

definition strip_prefix :: "string \<Rightarrow> string \<Rightarrow> string option" where
  "strip_prefix p s = (if take (length p) s = p then Some (drop (length p) s) else None)"

fun parse_value :: "nat \<Rightarrow> string \<Rightarrow> (pyval \<times> string) option"
  and parse_elems :: "nat \<Rightarrow> string \<Rightarrow> pyval list \<Rightarrow> (pyval list \<times> string) option"
  and parse_members ::
    "nat \<Rightarrow> string \<Rightarrow> (string \<times> pyval) list \<Rightarrow> ((string \<times> pyval) list \<times> string) option"
where
  "parse_value 0 s = None"
| "parse_value (Suc n) s =
     (case skip_ws s of
        [] \<Rightarrow> None
      | c # cs \<Rightarrow>
          if c = CHR ''n'' then map_option (Pair VNone) (strip_prefix ''ull'' cs)
          else if c = CHR ''t'' then map_option (Pair (VBool True)) (strip_prefix ''rue'' cs)
          else if c = CHR ''f'' then map_option (Pair (VBool False)) (strip_prefix ''alse'' cs)
          else if c = CHR 0x22 then
            map_option (\<lambda>(str, r). (VStr str, r)) (parse_string cs [])
          else if c = CHR ''['' then
            (case skip_ws cs of
               [] \<Rightarrow> None
             | d # ds \<Rightarrow>
                 if d = CHR '']'' then Some (VList [], ds)
                 else map_option (\<lambda>(xs, r). (VList xs, r)) (parse_elems n (d # ds) []))
          else if c = CHR ''{'' then
            (case skip_ws cs of
               [] \<Rightarrow> None
             | d # ds \<Rightarrow>
                 if d = CHR ''}'' then Some (VDict [], ds)
                 else map_option (\<lambda>(kvs, r). (VDict kvs, r)) (parse_members n (d # ds) []))
          else parse_int (c # cs))"
| "parse_elems 0 s acc = None"
| "parse_elems (Suc n) s acc =
     (case parse_value n s of
        None \<Rightarrow> None
      | Some (v, r) \<Rightarrow>
          (case skip_ws r of
             [] \<Rightarrow> None
           | c # cs \<Rightarrow>
               if c = CHR '','' then parse_elems n cs (acc @ [v])
               else if c = CHR '']'' then Some (acc @ [v], cs)
               else None))"
| "parse_members 0 s acc = None"
| "parse_members (Suc n) s acc =
     (case skip_ws s of
        [] \<Rightarrow> None
      | q # cs \<Rightarrow>
          if q \<noteq> CHR 0x22 then None
          else
            (case parse_string cs [] of
               None \<Rightarrow> None
             | Some (k, r) \<Rightarrow>
                 (case skip_ws r of
                    [] \<Rightarrow> None
                  | c # r2 \<Rightarrow>
                      if c \<noteq> CHR '':'' then None
                      else
                        (case parse_value n r2 of
                           None \<Rightarrow> None
                         | Some (v, r3) \<Rightarrow>
                             (case skip_ws r3 of
                                [] \<Rightarrow> None
                              | c3 # r4 \<Rightarrow>
                                  if c3 = CHR '','' then parse_members n r4 (dict_setitem acc k v)
                                  else if c3 = CHR ''}'' then Some (dict_setitem acc k v, r4)
                                  else None)))))"

definition orjson_loads_impl :: "bytes \<Rightarrow> py_error + pyval" where
  "orjson_loads_impl data =
     (case parse_value (2 * length data + 2) data of
        None \<Rightarrow> Inl (Raised ''JSONDecodeError'')
      | Some (v, rest) \<Rightarrow> if skip_ws rest = [] then Inr v else Inl (Raised ''JSONDecodeError''))"

subsection \<open>Constructors\<close>

text \<open>
  \<^verbatim>\<open>typ(*args, **kwargs)\<close> for the calls \<^verbatim>\<open>_deserialize_object\<close> makes on \<^verbatim>\<open>str\<close>, \<^verbatim>\<open>dict\<close>,
  \<^verbatim>\<open>object\<close> and the application's dataclasses. The generated \<^verbatim>\<open>__init__\<close> of a dataclass
  without defaults binds the positional arguments to the first fields and the keyword
  arguments by name; an unknown, repeated or missing argument is a \<^verbatim>\<open>TypeError\<close>. The
  constructors of the other built-in classes are outside this model
  (\<open>Raised ''<unmodelled call>''\<close>).
\<close>

definition dataclass_init ::
  "pytype \<Rightarrow> string list \<Rightarrow> pyval list \<Rightarrow> (string \<times> pyval) list \<Rightarrow> py_error + pyval" where
  "dataclass_init cls field_names args kwargs =
     (if length args \<le> length field_names \<and> distinct (map fst kwargs)
         \<and> set (map fst kwargs) = set (drop (length args) field_names)
      then Inr (VObj cls (zip (take (length args) field_names) args
                          @ map (\<lambda>f. (f, the (map_of kwargs f))) (drop (length args) field_names)))
      else Inl (Raised ''TypeError''))"

definition call_type_impl ::
  "pytype \<Rightarrow> pyval list \<Rightarrow> (string \<times> pyval) list \<Rightarrow> py_error + pyval" where
  "call_type_impl t args kwargs =
     (case t of
        PyClass n ancestors field_names \<Rightarrow> dataclass_init t field_names args kwargs
      | PyStr \<Rightarrow>
          (case (args, kwargs) of
             ([VStr s], []) \<Rightarrow> Inr (VStr s)
           | _ \<Rightarrow> Inl (Raised ''<unmodelled call>''))
      | PyDict \<Rightarrow>
          (case args of
             [] \<Rightarrow> Inr (VDict kwargs)
           | _ \<Rightarrow> Inl (Raised ''<unmodelled call>''))
      | PyObject \<Rightarrow>
          (if args = [] \<and> kwargs = [] then Inl (Raised ''<unmodelled call>'')
           else Inl (Raised ''TypeError''))
      | _ \<Rightarrow> Inl (Raised ''<unmodelled call>''))"

subsection \<open>pyotp\<close>

text \<open>
  \<^verbatim>\<open>pyotp.TOTP(key, interval=interval).at(for_time)\<close> for a number \<open>for_time\<close>: the key is
  base32-decoded, the counter is \<^verbatim>\<open>int(int(for_time) / interval)\<close> (\<^verbatim>\<open>int\<close> truncates towards
  zero), written as eight bytes.
\<close>

definition b32decode :: "bytes \<Rightarrow> bytes option" where
  "b32decode s =
     (let cs = takeWhile (\<lambda>c. c \<noteq> CHR ''='') s
      in if length s mod 8 \<noteq> 0 \<or> (\<exists>c \<in> set cs. index_of c b32_alphabet = None) then None
         else Some (map (\<lambda>g. char_of (nat_of_bits g))
                      (filter (\<lambda>g. length g = 8)
                         (chop 8 (concat (map (\<lambda>c. map (\<lambda>i. bit (the (index_of c b32_alphabet)) (4 - i))
                                                      [0..<5]) cs))))))"

definition py_int :: "real \<Rightarrow> int" where
  "py_int x = (if x \<ge> 0 then \<lfloor>x\<rfloor> else \<lceil>x\<rceil>)"

definition pyotp_TOTP_at :: "bytes \<Rightarrow> int \<Rightarrow> real \<Rightarrow> py_error + string" where
  "pyotp_TOTP_at key interval for_time =
     (if interval = 0 then Inl (Raised ''ZeroDivisionError'')
      else
        (case b32decode key of
           None \<Rightarrow> Inl (Raised ''binascii.Error'')
         | Some secret \<Rightarrow>
             Inr (hotp secret (of_int (py_int (of_int (py_int for_time) / of_int interval))))))"

subsection \<open>The runtime\<close>

text \<open>The clock and the directory listing are the environment's.\<close>

definition cpython :: "real \<Rightarrow> (string \<times> string) list \<Rightarrow> runtime" where
  "cpython now listing =
     \<lparr> sha256_hexdigest = sha256_hex,
       urlsafe_b64encode = base64_urlsafe_b64encode,
       urlsafe_b64decode = base64_urlsafe_b64decode,
       b32encode = base64_b32encode,
       orjson_dumps = orjson_dumps_impl,
       orjson_loads = orjson_loads_impl,
       call_type = call_type_impl,
       TOTP_at = pyotp_TOTP_at,
       time_time = now,
       iterdir = listing \<rparr>"

section \<open>The concrete scenario\<close>

text \<open>
  A manager with the whitelist \<^verbatim>\<open>[Point]\<close> (a dataclass with the fields \<^verbatim>\<open>x\<close> and \<^verbatim>\<open>y\<close>), the
  pepper \<^verbatim>\<open>"p3pp3r"\<close>, the key \<^verbatim>\<open>"k"\<close> and the default interval, and the serializer it
  creates for the salt \<^verbatim>\<open>"salt"\<close> at the time 1000. \<^verbatim>\<open>Point3D\<close> is a subclass of \<^verbatim>\<open>Point\<close>
  with a third field.
\<close>

definition Point :: pytype where
  "Point = PyClass ''Point'' [PyObject] [''x'', ''y'']"

definition Point3D :: pytype where
  "Point3D = PyClass ''Point3D'' [Point, PyObject] [''x'', ''y'', ''z'']"

definition example_runtime :: runtime where
  "example_runtime = cpython 1000 []"

definition example_registry :: "object_to_type_id_map \<times> type_id_to_object_map" where
  "example_registry = map_objects_to_ids [Point, PyDecimal, PyDatetime, PyDate, PyTime]"

definition example_manager :: manager where
  "example_manager =
     \<lparr> m_pepper = ''p3pp3r'', m_max_objects = 256, m_max_object_length = 40000,
       m_otp_key = ''NM======'', m_otp_interval = 14400, m_default_serializer = None,
       m_deserializer_map = Map.empty, m_object_to_type_id = fst example_registry,
       m_type_id_to_object = snd example_registry \<rparr>"

definition example_serializer :: serializer where
  "example_serializer =
     \<lparr> otp_code = hotp ''k'' 0, pepper = ''p3pp3r'', salt = ''salt'',
       object_to_type_id = fst example_registry, type_id_to_object = snd example_registry,
       max_object_length = 40000, default_serializer = None, deserializer_map = Map.empty \<rparr>"

section \<open>The registry built by the manager\<close>

lemma digit_inj: "a < 10 \<Longrightarrow> b < 10 \<Longrightarrow> ''0123456789'' ! a = ''0123456789'' ! b \<Longrightarrow> a = (b::nat)"
proof -
  assume "a < 10" "b < 10" "''0123456789'' ! a = ''0123456789'' ! b"
  moreover have "distinct ''0123456789''" by simp
  ultimately show ?thesis by (simp add: nth_eq_iff_index_eq)
qed

lemma str_nat_nonempty: "str_nat n \<noteq> []"
  by (subst str_nat.simps) simp

lemma str_nat_snoc: "str_nat n = str_nat' \<Longrightarrow> \<exists>xs. str_nat n = xs @ [''0123456789'' ! (n mod 10)]"
  by (subst str_nat.simps) auto

lemma str_nat_last: "last (str_nat n) = ''0123456789'' ! (n mod 10)"
  by (subst str_nat.simps) simp

lemma str_nat_butlast: "butlast (str_nat n) = (if n < 10 then [] else str_nat (n div 10))"
  by (subst str_nat.simps) simp

lemma str_nat_inj: "str_nat a = str_nat b \<Longrightarrow> a = b"
proof (induction a arbitrary: b rule: str_nat.induct)
  case (1 n)
  have l: "n mod 10 = b mod 10"
  proof -
    have "last (str_nat n) = last (str_nat b)" using "1.prems" by simp
    then have "''0123456789'' ! (n mod 10) = ''0123456789'' ! (b mod 10)" by (simp only: str_nat_last)
    then show ?thesis by (intro digit_inj) auto
  qed
  have bl: "butlast (str_nat n) = butlast (str_nat b)" using "1.prems" by simp
  show ?case
  proof (cases "n < 10")
    case True
    then have "b < 10" using bl str_nat_nonempty[of "b div 10"] by (auto simp: str_nat_butlast split: if_splits)
    with True l show ?thesis by simp
  next
    case False
    then have nb: "\<not> b < 10" using bl str_nat_nonempty[of "n div 10"] by (auto simp: str_nat_butlast split: if_splits)
    with False bl have "str_nat (n div 10) = str_nat (b div 10)" by (simp add: str_nat_butlast)
    with "1.IH" False have "n div 10 = b div 10" by simp
    with l show ?thesis by (metis div_mult_mod_eq)
  qed
qed

lemma str_nat_zero: "str_nat n = ''0'' \<longleftrightarrow> n = 0"
proof
  assume "str_nat n = ''0''"
  then have "str_nat n = str_nat 0" by (simp add: str_nat.simps)
  then show "n = 0" by (rule str_nat_inj)
qed (simp add: str_nat.simps)

lemma loop_o2i_notin:
  "k \<notin> set ts \<Longrightarrow> fst (map_objects_loop idx ts (o2i, i2o)) k = o2i k"
  by (induction ts arbitrary: idx o2i i2o) (auto simp: Let_def)

lemma loop_o2i_last:
  "k \<notin> set post \<Longrightarrow>
   fst (map_objects_loop idx (pre @ k # post) (o2i, i2o)) k = Some (str_nat (idx + length pre))"
proof (induction pre arbitrary: idx o2i i2o)
  case Nil
  then show ?case by (simp add: Let_def loop_o2i_notin)
next
  case (Cons a pre)
  then show ?case by (simp add: Let_def)
qed

lemma loop_i2o_other:
  "\<forall>j < length ts. i \<noteq> str_nat (idx + j) \<Longrightarrow>
   snd (map_objects_loop idx ts (o2i, i2o)) i = i2o i"
proof (induction ts arbitrary: idx o2i i2o)
  case Nil
  then show ?case by simp
next
  case (Cons a ts)
  have "\<forall>j < length ts. i \<noteq> str_nat (Suc idx + j)"
    using Cons.prems by (metis Suc_less_eq add_Suc_right add_Suc length_Cons)
  moreover have "i \<noteq> str_nat idx" using Cons.prems by force
  ultimately show ?case using Cons.IH by (simp add: Let_def)
qed

lemma loop_i2o_nth:
  "j < length ts \<Longrightarrow>
   snd (map_objects_loop idx ts (o2i, i2o)) (str_nat (idx + j)) = Some (ts ! j)"
proof (induction ts arbitrary: idx o2i i2o j)
  case Nil
  then show ?case by simp
next
  case (Cons a ts)
  show ?case
  proof (cases j)
    case 0
    have "\<forall>j' < length ts. str_nat idx \<noteq> str_nat (Suc idx + j')"
      by (auto dest: str_nat_inj)
    then show ?thesis using 0 by (simp add: Let_def loop_i2o_other)
  next
    case (Suc j')
    then have "j' < length ts" using Cons.prems by simp
    from Cons.IH[OF this, of "Suc idx"] show ?thesis using Suc by (simp add: Let_def)
  qed
qed

lemma registry_consistent:
  assumes "fst (map_objects_to_ids wl) (Some t) = Some i"
  shows "snd (map_objects_to_ids wl) i = Some (Some t) \<and> i \<noteq> [] \<and> i \<noteq> ''0''"
proof -
  let ?ts = "builtin_objects @ map Some wl"
  have "Some t \<in> set ?ts"
  proof (rule ccontr)
    assume "Some t \<notin> set ?ts"
    then have "fst (map_objects_to_ids wl) (Some t) = None"
      unfolding map_objects_to_ids_def using loop_o2i_notin[of "Some t" ?ts 0 Map.empty Map.empty] by simp
    with assms show False by simp
  qed
  then obtain pre post where sp: "?ts = pre @ Some t # post" "Some t \<notin> set post"
    by (meson split_list_last)
  then have i: "i = str_nat (length pre)"
    using assms unfolding map_objects_to_ids_def by (simp add: loop_o2i_last)
  have "length pre < length ?ts" using sp(1) by (metis length_append length_Cons less_add_Suc1 add_Suc_right)
  then have "snd (map_objects_to_ids wl) (str_nat (0 + length pre)) = Some (?ts ! length pre)"
    unfolding map_objects_to_ids_def by (rule loop_i2o_nth)
  then have a: "snd (map_objects_to_ids wl) i = Some (Some t)" using i sp(1) by simp
  have "pre \<noteq> []"
  proof
    assume "pre = []"
    then have "hd ?ts = Some t" using sp(1) by simp
    then show False by (simp add: builtin_objects_def)
  qed
  then have "i \<noteq> ''0''" using i by (simp add: str_nat_zero)
  with a i show ?thesis by (simp add: str_nat_nonempty)
qed

subsection \<open>The scenario's manager and serializer\<close>

lemma b32_k: "base64_b32encode ''k'' = ''NM======''"
  by code_simp

lemma b32dec_k: "b32decode ''NM======'' = Some ''k''"
  by code_simp

lemma example_manager_init:
  "StateRecoveryManager_init example_runtime [Point] ''p3pp3r'' (Some ''k'') default_otp_interval
     default_max_objects default_max_object_length None None = Inr example_manager"
  by (simp add: StateRecoveryManager_init_def example_manager_def example_runtime_def cpython_def
      example_registry_def b32_k default_otp_interval_def default_max_objects_def
      default_max_object_length_def split: prod.splits)

lemma example_serializer_created:
  "create_serializer example_runtime example_manager ''salt'' (Some 1000) = Inr example_serializer"
  by (simp add: create_serializer_def example_manager_def example_runtime_def cpython_def
      example_serializer_def pyotp_TOTP_at_def b32dec_k py_int_def)

lemma example_registry_99: "snd example_registry ''99'' = None"
  by code_simp

lemma example_registry_Point:
  "fst example_registry (Some Point) = Some ''8'' \<and> snd example_registry ''8'' = Some (Some Point)"
  by code_simp


section \<open>Null handling\<close>

text \<open>
  C8. Serializing \<^verbatim>\<open>None\<close> yields the sentinel triple \<^verbatim>\<open>("0", "", "")\<close>, whatever the
  hash function is (no signature is computed), and a token whose type identifier is
  \<^verbatim>\<open>"0"\<close> deserializes to \<^verbatim>\<open>None\<close> for every payload, every signature, every serializer
  (so for every pepper, code and salt) and every runtime: the signature is not checked.
\<close>

theorem none_sentinel:
  "serialize rt s key VNone = Inr (''0'', '''', '''')
   \<and> deserialize rt' s' key' ''0'' data signature = Inr VNone
   \<and> deserialize_client_state rt' s' [(key', (''0'', data, signature))] = Inr [(key', VNone)]"
  by (simp add: serialize_def deserialize_def deserialize_client_state_def)

section \<open>The time of the rotating code\<close>

text \<open>
  C10. In \<^verbatim>\<open>create_serializer\<close> an explicit \<^verbatim>\<open>target_time\<close> equal to zero is not honoured: the
  code (or the exception of the generator) is the one of the current clock, as for an
  omitted \<^verbatim>\<open>target_time\<close>, because the fallback is \<^verbatim>\<open>target_time or time.time()\<close>. For every
  non-zero \<^verbatim>\<open>target_time\<close> the code is the one of that timestamp.
\<close>

theorem target_time_zero_falls_back_to_clock:
  "map_sum id otp_code (create_serializer rt m salt' (Some 0))
     = TOTP_at rt (m_otp_key m) (m_otp_interval m) (time_time rt)
   \<and> map_sum id otp_code (create_serializer rt m salt' None)
     = TOTP_at rt (m_otp_key m) (m_otp_interval m) (time_time rt)
   \<and> (t \<noteq> 0 \<longrightarrow>
        map_sum id otp_code (create_serializer rt m salt' (Some t))
          = TOTP_at rt (m_otp_key m) (m_otp_interval m) t)"
  by (auto simp: create_serializer_def split: sum.splits)

theorem target_time_zero_falls_back_to_clock_witness:
  "(1000::real) \<noteq> 0
   \<and> map_sum id otp_code (create_serializer (cpython 50000 []) example_manager ''salt'' (Some 1000))
       = pyotp_TOTP_at ''NM======'' 14400 1000
   \<and> map_sum id otp_code (create_serializer (cpython 50000 []) example_manager ''salt'' (Some 0))
       = pyotp_TOTP_at ''NM======'' 14400 50000"
  using target_time_zero_falls_back_to_clock [of "cpython 50000 []" example_manager "''salt''" 1000]
  by (simp add: cpython_def example_manager_def)

section \<open>Batches\<close>

lemma deserialize_loop_fails:
  "(key, type_id, data, signature) \<in> set state_vars \<Longrightarrow>
   deserialize rt s key type_id data signature = Inl e \<Longrightarrow>
   isl (deserialize_loop rt s state_vars result)"
proof (induction state_vars arbitrary: result)
  case Nil
  then show ?case by simp
next
  case (Cons a state_vars)
  obtain k t d g where a: "a = (k, t, d, g)" by (cases a) auto
  show ?case
  proof (cases "deserialize rt s k t d g")
    case (Inl e')
    then show ?thesis by (simp add: a)
  next
    case (Inr v)
    with Cons.prems a have "(key, type_id, data, signature) \<in> set state_vars" by auto
    with Cons.IH Cons.prems(2) Inr a show ?thesis by simp
  qed
qed

lemma deserialize_loop_succeeds:
  "deserialize_loop rt s state_vars result = Inr r \<Longrightarrow>
   (key, type_id, data, signature) \<in> set state_vars \<Longrightarrow>
   \<not> isl (deserialize rt s key type_id data signature)"
  by (cases "deserialize rt s key type_id data signature")
     (auto dest: deserialize_loop_fails [where result = result])

text \<open>
  C9. Deserialization of a batch is all or nothing: if one token of the mapping fails,
  \<^verbatim>\<open>deserialize_client_state\<close> ends with an exception and returns no mapping at all, whatever
  tokens before it succeeded.
\<close>

theorem deserialize_all_or_nothing:
  "(key, type_id, data, signature) \<in> set state_vars \<Longrightarrow>
   deserialize rt s key type_id data signature = Inl e \<Longrightarrow>
   isl (deserialize_client_state rt s state_vars)
   \<and> (\<forall>r. deserialize_client_state rt s state_vars \<noteq> Inr r)"
  using deserialize_loop_fails [of key type_id data signature state_vars rt s e "[]"]
  by (auto simp: deserialize_client_state_def)

theorem deserialize_all_or_nothing_witness:
  "(''b'', ''99'', '''', '''') \<in> set [(''a'', ''0'', '''', ''''), (''b'', ''99'', '''', '''')]
   \<and> deserialize example_runtime example_serializer ''a'' ''0'' '''' '''' = Inr VNone
   \<and> deserialize example_runtime example_serializer ''b'' ''99'' '''' '''' = Inl (UnknownTypeId ''99'')
   \<and> isl (deserialize_client_state example_runtime example_serializer
            [(''a'', ''0'', '''', ''''), (''b'', ''99'', '''', '''')])"
proof -
  have u: "deserialize example_runtime example_serializer ''b'' ''99'' '''' '''' = Inl (UnknownTypeId ''99'')"
    by (simp add: deserialize_def example_serializer_def example_registry_99)
  show ?thesis
    using deserialize_all_or_nothing [of "''b''" "''99''" "''''" "''''" "[(''a'', ''0'', '''', ''''), (''b'', ''99'', '''', '''')]" example_runtime example_serializer "UnknownTypeId ''99''"] u
    by (simp add: deserialize_def)
qed

lemma dict_setitem_keys: "fst ` set (dict_setitem d k v) = insert k (fst ` set d)"
  by (induction d) (force+)

lemma dict_setitem_length:
  "length (dict_setitem d k v) = (if k \<in> fst ` set d then length d else Suc (length d))"
  by (induction d) (force+)

lemma serialize_loop_length:
  "serialize_loop rt s kvs acc = Inr r \<Longrightarrow> distinct (map fst kvs) \<Longrightarrow>
   fst ` set acc \<inter> fst ` set kvs = {} \<Longrightarrow> length r = length acc + length kvs"
proof (induction kvs arbitrary: acc)
  case Nil
  then show ?case by simp
next
  case (Cons a kvs)
  obtain k v where a: "a = (k, v)" by (cases a)
  from Cons.prems(1) a obtain tok where tok: "serialize rt s k v = Inr tok"
    and rest: "serialize_loop rt s kvs (dict_setitem acc k tok) = Inr r"
    by (auto split: sum.splits)
  have k: "k \<notin> fst ` set acc" using Cons.prems(3) a by auto
  have "fst ` set (dict_setitem acc k tok) \<inter> fst ` set kvs = {}"
    using Cons.prems(2,3) a by (auto simp: dict_setitem_keys)
  with Cons.IH[OF rest] Cons.prems(2) have "length r = length (dict_setitem acc k tok) + length kvs"
    by simp
  with k show ?case by (simp add: dict_setitem_length)
qed

lemma serialize_loop_none:
  "list_all (\<lambda>(k, v). v = VNone) kvs \<Longrightarrow> \<not> isl (serialize_loop rt s kvs acc)"
  by (induction kvs arbitrary: acc) (auto simp: serialize_def)

lemma serialize_none_batch:
  "map_sum id length (serialize_state_vars rt s (map (\<lambda>i. (str_nat i, VNone)) [0..<n])) = Inr n"
proof -
  let ?kvs = "map (\<lambda>i. (str_nat i, VNone)) [0..<n]"
  have "list_all (\<lambda>(k, v). v = VNone) ?kvs" by (simp add: list_all_iff)
  then obtain r where r: "serialize_loop rt s ?kvs [] = Inr r"
    using serialize_loop_none[of ?kvs rt s "[]"] by (cases "serialize_loop rt s ?kvs []") auto
  have "inj str_nat" by (auto intro: injI dest: str_nat_inj)
  then have "distinct (map fst ?kvs)" by (simp add: distinct_map comp_def inj_on_def)
  from serialize_loop_length[OF r this] have "length r = n" by simp
  with r show ?thesis by (simp add: serialize_state_vars_def)
qed

text \<open>
  C4. The bound \<^verbatim>\<open>max_objects\<close> of the manager is stored and never read: neither
  \<^verbatim>\<open>create_serializer\<close> passes it on nor \<^verbatim>\<open>serialize_state_vars\<close> counts its entries. With the
  default bound of 256, a batch of 257 entries is serialized to 257 tokens.
\<close>

theorem max_objects_not_enforced:
  "m_max_objects example_manager = 256
   \<and> map_sum id length
        (serialize_state_vars example_runtime example_serializer
           (map (\<lambda>i. (str_nat i, VNone)) [0..<257])) = Inr 257"
  using serialize_none_batch [of example_runtime example_serializer 257]
  by (simp add: example_manager_def)

section \<open>Construction of the manager\<close>

lemma manager_init_registry:
  "StateRecoveryManager_init rt wl pep key iv mo ml d dm = Inr m \<Longrightarrow>
   m_object_to_type_id m = fst (map_objects_to_ids (wl @ [PyDecimal, PyDatetime, PyDate, PyTime]))
   \<and> m_type_id_to_object m = snd (map_objects_to_ids (wl @ [PyDecimal, PyDatetime, PyDate, PyTime]))"
  by (auto simp: StateRecoveryManager_init_def Let_def split: prod.splits)

text \<open>
  C5 as the code has it: the constructor accepts every whitelist. The identifiers are the
  positions in the enumeration of the eight built-in entries, the whitelist and the four
  calendar and decimal classes: every position's identifier resolves to the entry at that
  position, and an entry listed more than once is serialized under its last position.
\<close>

theorem manager_init_accepts_every_whitelist:
  "(\<exists>m. StateRecoveryManager_init rt wl pep key iv mo ml d dm = Inr m)
   \<and> (StateRecoveryManager_init rt wl pep key iv mo ml d dm = Inr m \<longrightarrow>
        (j < length (builtin_objects @ map Some (wl @ [PyDecimal, PyDatetime, PyDate, PyTime])) \<longrightarrow>
           m_type_id_to_object m (str_nat j)
             = Some ((builtin_objects @ map Some (wl @ [PyDecimal, PyDatetime, PyDate, PyTime])) ! j))
        \<and> (builtin_objects @ map Some (wl @ [PyDecimal, PyDatetime, PyDate, PyTime]) = pre @ k # post
             \<and> k \<notin> set post \<longrightarrow>
           m_object_to_type_id m k = Some (str_nat (length pre))))"
proof (intro conjI impI)
  show "\<exists>m. StateRecoveryManager_init rt wl pep key iv mo ml d dm = Inr m"
    by (simp add: StateRecoveryManager_init_def Let_def split: prod.splits)
next
  let ?ts = "builtin_objects @ map Some (wl @ [PyDecimal, PyDatetime, PyDate, PyTime])"
  assume m: "StateRecoveryManager_init rt wl pep key iv mo ml d dm = Inr m"
  note reg = manager_init_registry[OF m]
  {
    assume "j < length ?ts"
    then have "snd (map_objects_loop 0 ?ts (Map.empty, Map.empty)) (str_nat (0 + j)) = Some (?ts ! j)"
      by (rule loop_i2o_nth)
    then show "m_type_id_to_object m (str_nat j) = Some (?ts ! j)"
      using reg by (simp add: map_objects_to_ids_def)
  }
  {
    assume "?ts = pre @ k # post \<and> k \<notin> set post"
    then have "fst (map_objects_loop 0 ?ts (Map.empty, Map.empty)) k = Some (str_nat (0 + length pre))"
      using loop_o2i_last[of k post 0 pre Map.empty Map.empty] by simp
    then show "m_object_to_type_id m k = Some (str_nat (length pre))"
      using reg by (simp add: map_objects_to_ids_def)
  }
qed

theorem manager_init_accepts_every_whitelist_witness:
  "StateRecoveryManager_init example_runtime [PyStr] ''p3pp3r'' (Some ''k'') 14400 256 40000 None None
     = Inr (projr (StateRecoveryManager_init example_runtime [PyStr] ''p3pp3r'' (Some ''k'') 14400
                     256 40000 None None))
   \<and> (8::nat) < length (builtin_objects @ map Some ([PyStr] @ [PyDecimal, PyDatetime, PyDate, PyTime]))
   \<and> m_type_id_to_object
         (projr (StateRecoveryManager_init example_runtime [PyStr] ''p3pp3r'' (Some ''k'') 14400
                   256 40000 None None)) (str_nat 8) = Some (Some PyStr)
   \<and> m_object_to_type_id
         (projr (StateRecoveryManager_init example_runtime [PyStr] ''p3pp3r'' (Some ''k'') 14400
                   256 40000 None None)) (Some PyStr) = Some (str_nat 8)"
proof -
  let ?r = "StateRecoveryManager_init example_runtime [PyStr] ''p3pp3r'' (Some ''k'') 14400 256 40000 None None"
  have ts: "builtin_objects @ map Some ([PyStr] @ [PyDecimal, PyDatetime, PyDate, PyTime])
          = [None, Some PyStr, Some PyInt, Some PyFloat, Some PyBool, Some PyList, Some PyTuple,
             Some PyUUID] @ Some PyStr # [Some PyDecimal, Some PyDatetime, Some PyDate, Some PyTime]"
    by (simp add: builtin_objects_def)
  note w = manager_init_accepts_every_whitelist
    [where rt = example_runtime and wl = "[PyStr]" and pep = "''p3pp3r''" and key = "Some ''k''"
       and iv = 14400 and mo = 256 and ml = 40000 and d = None and dm = None
       and m = "projr ?r" and j = 8
       and pre = "[None, Some PyStr, Some PyInt, Some PyFloat, Some PyBool, Some PyList, Some PyTuple,
                   Some PyUUID]"
       and k = "Some PyStr"
       and post = "[Some PyDecimal, Some PyDatetime, Some PyDate, Some PyTime]"]
  from w have r: "?r = Inr (projr ?r)" by auto
  from w r ts show ?thesis by (simp add: builtin_objects_def eval_nat_numeral)
qed

lemma str_manager_registry:
  "map_sum id (\<lambda>m. (m_object_to_type_id m (Some PyStr), m_type_id_to_object m ''1'',
                      m_type_id_to_object m ''8''))
     (StateRecoveryManager_init example_runtime [PyStr] ''p3pp3r'' (Some ''k'') 14400 256 40000
        None None)
   = Inr (Some ''8'', Some (Some PyStr), Some (Some PyStr))"
  by code_simp

theorem whitelist_collision_accepted:
  "\<not> isl (StateRecoveryManager_init example_runtime [PyStr] ''p3pp3r'' (Some ''k'') 14400 256 40000
            None None)
   \<and> map_sum id (\<lambda>m. (m_object_to_type_id m (Some PyStr), m_type_id_to_object m ''1'',
                        m_type_id_to_object m ''8''))
       (StateRecoveryManager_init example_runtime [PyStr] ''p3pp3r'' (Some ''k'') 14400 256 40000
          None None)
     = Inr (Some ''8'', Some (Some PyStr), Some (Some PyStr))"
  using str_manager_registry
  by (cases "StateRecoveryManager_init example_runtime [PyStr] ''p3pp3r'' (Some ''k'') 14400 256
        40000 None None") auto

section \<open>Type identifiers in serialization\<close>

lemma loop_o2i_in:
  "k \<in> set ts \<Longrightarrow> \<exists>j. fst (map_objects_loop idx ts (o2i, i2o)) k = Some (str_nat j)"
proof -
  assume "k \<in> set ts"
  then obtain pre post where "ts = pre @ k # post" "k \<notin> set post"
    by (meson split_list_last)
  then show ?thesis using loop_o2i_last[of k post idx pre o2i i2o] by auto
qed

lemma registry_dom:
  "fst (map_objects_to_ids wl) k \<noteq> None \<longleftrightarrow> k \<in> set (builtin_objects @ map Some wl)"
proof
  assume "fst (map_objects_to_ids wl) k \<noteq> None"
  then show "k \<in> set (builtin_objects @ map Some wl)"
    using loop_o2i_notin[of k "builtin_objects @ map Some wl" 0 Map.empty Map.empty]
    unfolding map_objects_to_ids_def by (cases "k \<in> set (builtin_objects @ map Some wl)") auto
next
  assume "k \<in> set (builtin_objects @ map Some wl)"
  then show "fst (map_objects_to_ids wl) k \<noteq> None"
    using loop_o2i_in[of k "builtin_objects @ map Some wl" 0 Map.empty Map.empty]
    unfolding map_objects_to_ids_def by auto
qed

lemma lookup_type_id_find:
  assumes "\<And>t i. o2i (Some t) = Some i \<Longrightarrow> i \<noteq> []"
  shows "lookup_type_id o2i ts =
           (case find (\<lambda>t. o2i (Some t) \<noteq> None) ts of
              None \<Rightarrow> Inl NotWhitelisted
            | Some t \<Rightarrow> Inr (the (o2i (Some t))))"
  using assms by (induction ts) (auto split: option.splits)

lemma lookup_type_id_registry:
  "lookup_type_id (fst (map_objects_to_ids wl)) ts =
     (case find (\<lambda>t. Some t \<in> set (builtin_objects @ map Some wl)) ts of
        None \<Rightarrow> Inl NotWhitelisted
      | Some t \<Rightarrow> Inr (the (fst (map_objects_to_ids wl) (Some t))))"
proof -
  have "lookup_type_id (fst (map_objects_to_ids wl)) ts =
          (case find (\<lambda>t. fst (map_objects_to_ids wl) (Some t) \<noteq> None) ts of
             None \<Rightarrow> Inl NotWhitelisted
           | Some t \<Rightarrow> Inr (the (fst (map_objects_to_ids wl) (Some t))))"
    by (rule lookup_type_id_find) (use registry_consistent in blast)
  then show ?thesis by (simp only: registry_dom)
qed


lemma create_serializer_fields:
  "create_serializer rt m salt' tt = Inr s \<Longrightarrow>
   pepper s = m_pepper m \<and> salt s = salt'
   \<and> object_to_type_id s = m_object_to_type_id m \<and> type_id_to_object s = m_type_id_to_object m
   \<and> max_object_length s = m_max_object_length m
   \<and> default_serializer s = m_default_serializer m \<and> deserializer_map s = m_deserializer_map m"
  by (auto simp: create_serializer_def split: sum.splits)

lemma mro_head: "\<exists>rest. mro t = t # rest"
  by (cases t) auto

lemma dumps_point3d:
  "orjson_dumps_impl None (VObj Point3D [(''x'', VInt 1), (''y'', VInt 2), (''z'', VInt 3)])
     = Inr ''{\"x\":1,\"y\":2,\"z\":3}''"
  by code_simp

lemma dumps_point:
  "orjson_dumps_impl None (VObj Point [(''x'', VInt 1), (''y'', VInt 2)]) = Inr ''{\"x\":1,\"y\":2}''"
  by code_simp

text \<open>
  C3. For a serializer with the registry of a manager and a value other than \<^verbatim>\<open>None\<close>: the
  type identifier is looked up along the \<^verbatim>\<open>__mro__\<close> of the value's class, most specific class
  first. When no class of it is registered, serialization fails with the not-white-listed
  \<^verbatim>\<open>ValueError\<close>. Otherwise the token carries the identifier of the first registered class
  \<open>t\<close> of the \<^verbatim>\<open>__mro__\<close> (an exact match is not needed), and that identifier resolves back
  to \<open>t\<close>; serialization can then fail only in the encoder or on the length bound.
\<close>

theorem type_id_of_nearest_registered_ancestor:
  assumes "object_to_type_id s = fst (map_objects_to_ids wl)"
    and "type_id_to_object s = snd (map_objects_to_ids wl)"
    and "obj \<noteq> VNone"
  shows "(find (\<lambda>t. Some t \<in> set (builtin_objects @ map Some wl)) (mro (type_of obj)) = None \<longrightarrow>
            serialize rt s key obj = Inl NotWhitelisted)
       \<and> (find (\<lambda>t. Some t \<in> set (builtin_objects @ map Some wl)) (mro (type_of obj)) = Some t \<longrightarrow>
            type_id_to_object s (the (object_to_type_id s (Some t))) = Some (Some t)
            \<and> serialize rt s key obj =
                (case serialize_object rt s obj of
                   Inl e \<Rightarrow> Inl e
                 | Inr result \<Rightarrow>
                     if int (length result) > max_object_length s then Inl (TooLong (length result))
                     else Inr (the (object_to_type_id s (Some t)), urlsafe_b64encode rt result,
                               sign_serialization rt s key (the (object_to_type_id s (Some t))) result)))"
proof (intro conjI impI)
  assume "find (\<lambda>t. Some t \<in> set (builtin_objects @ map Some wl)) (mro (type_of obj)) = None"
  then show "serialize rt s key obj = Inl NotWhitelisted"
    using assms by (simp add: serialize_def lookup_type_id_registry)
next
  assume f: "find (\<lambda>t. Some t \<in> set (builtin_objects @ map Some wl)) (mro (type_of obj)) = Some t"
  then have "Some t \<in> set (builtin_objects @ map Some wl)"
    by (auto simp: find_Some_iff)
  then obtain i where i: "fst (map_objects_to_ids wl) (Some t) = Some i"
    using registry_dom[of wl "Some t"] by auto
  from registry_consistent[OF i] i assms
  show "type_id_to_object s (the (object_to_type_id s (Some t))) = Some (Some t)" by simp
  from f assms show "serialize rt s key obj =
      (case serialize_object rt s obj of
         Inl e \<Rightarrow> Inl e
       | Inr result \<Rightarrow>
           if int (length result) > max_object_length s then Inl (TooLong (length result))
           else Inr (the (object_to_type_id s (Some t)), urlsafe_b64encode rt result,
                     sign_serialization rt s key (the (object_to_type_id s (Some t))) result))"
    by (simp add: serialize_def lookup_type_id_registry Let_def split: sum.splits)
qed


theorem type_id_of_nearest_registered_ancestor_witness:
  "find (\<lambda>t. Some t \<in> set (builtin_objects @ map Some [Point, PyDecimal, PyDatetime, PyDate, PyTime]))
     (mro (type_of (VObj Point3D [(''x'', VInt 1), (''y'', VInt 2), (''z'', VInt 3)]))) = Some Point
   \<and> map_sum id fst
        (serialize example_runtime example_serializer ''pos''
           (VObj Point3D [(''x'', VInt 1), (''y'', VInt 2), (''z'', VInt 3)])) = Inr ''8''
   \<and> find (\<lambda>t. Some t \<in> set (builtin_objects @ map Some [Point, PyDecimal, PyDatetime, PyDate, PyTime]))
        (mro (type_of (VDict []))) = None
   \<and> serialize example_runtime example_serializer ''d'' (VDict []) = Inl NotWhitelisted"
proof -
  let ?wl = "[Point, PyDecimal, PyDatetime, PyDate, PyTime]"
  let ?p = "VObj Point3D [(''x'', VInt 1), (''y'', VInt 2), (''z'', VInt 3)]"
  have r1: "object_to_type_id example_serializer = fst (map_objects_to_ids ?wl)"
    and r2: "type_id_to_object example_serializer = snd (map_objects_to_ids ?wl)"
    by (simp_all add: example_serializer_def example_registry_def)
  have f1: "find (\<lambda>t. Some t \<in> set (builtin_objects @ map Some ?wl)) (mro (type_of ?p)) = Some Point"
    by (simp add: Point_def Point3D_def builtin_objects_def)
  have f2: "find (\<lambda>t. Some t \<in> set (builtin_objects @ map Some ?wl)) (mro (type_of (VDict []))) = None"
    by (simp add: Point_def builtin_objects_def)
  have id8: "the (object_to_type_id example_serializer (Some Point)) = ''8''"
    using example_registry_Point by (simp add: example_serializer_def)
  have a: "map_sum id fst (serialize example_runtime example_serializer ''pos'' ?p) = Inr ''8''"
    using type_id_of_nearest_registered_ancestor
      [where s = example_serializer and wl = ?wl and obj = ?p and rt = example_runtime
         and key = "''pos''" and t = Point, OF r1 r2] f1 id8 dumps_point3d
    by (simp add: serialize_object_def example_runtime_def cpython_def example_serializer_def)
  have b: "serialize example_runtime example_serializer ''d'' (VDict []) = Inl NotWhitelisted"
    using type_id_of_nearest_registered_ancestor
      [where s = example_serializer and wl = ?wl and obj = "VDict []" and rt = example_runtime
         and key = "''d''", OF r1 r2] f2
    by simp
  from f1 a f2 b show ?thesis by simp
qed

text \<open>
  C7 as the code has it: the eight built-in entries take the identifiers 0 to 7, so the
  whitelisted classes are numbered from 8 on, in the order of the whitelist: a value whose
  exact class is the whitelist's entry at position \<open>length pre\<close> (and is not listed again
  later) is serialized under \<^verbatim>\<open>str(8 + length pre)\<close>, the first entry under \<^verbatim>\<open>"8"\<close>.
\<close>

theorem domain_type_ids_start_at_8:
  assumes "StateRecoveryManager_init rt (pre @ t # post) pep k iv mo ml d dm = Inr m"
    and "t \<notin> set (post @ [PyDecimal, PyDatetime, PyDate, PyTime])"
    and "create_serializer rt m salt' tt = Inr s"
    and "type_of obj = t" and "obj \<noteq> VNone"
    and "serialize rt s key obj = Inr (type_id, data, signature)"
  shows "type_id = str_nat (8 + length pre) \<and> (pre = [] \<longrightarrow> type_id = ''8'')"
proof -
  let ?pre = "builtin_objects @ map Some pre"
  let ?post = "map Some (post @ [PyDecimal, PyDatetime, PyDate, PyTime])"
  have ts: "builtin_objects @ map Some ((pre @ t # post) @ [PyDecimal, PyDatetime, PyDate, PyTime])
              = ?pre @ Some t # ?post" by simp
  have len: "length ?pre = 8 + length pre" by (simp add: builtin_objects_def)
  have "Some t \<notin> set ?post" using assms(2) by auto
  then have "fst (map_objects_loop 0 (?pre @ Some t # ?post) (Map.empty, Map.empty)) (Some t)
               = Some (str_nat (0 + length ?pre))"
    by (rule loop_o2i_last)
  then have "fst (map_objects_to_ids ((pre @ t # post) @ [PyDecimal, PyDatetime, PyDate, PyTime])) (Some t)
               = Some (str_nat (8 + length pre))"
    unfolding map_objects_to_ids_def ts len by simp
  then have "m_object_to_type_id m (Some t) = Some (str_nat (8 + length pre))"
    using manager_init_registry[OF assms(1)] by simp
  then have o: "object_to_type_id s (Some t) = Some (str_nat (8 + length pre))"
    using create_serializer_fields[OF assms(3)] by simp
  obtain rest where "mro (type_of obj) = t # rest" using mro_head[of t] assms(4) by auto
  then have "lookup_type_id (object_to_type_id s) (mro (type_of obj)) = Inr (str_nat (8 + length pre))"
    using o by (simp add: str_nat_nonempty)
  then have "type_id = str_nat (8 + length pre)"
    using assms(5,6) by (auto simp: serialize_def Let_def split: sum.splits if_splits)
  moreover have "str_nat 8 = ''8''" by (simp add: str_nat.simps)
  ultimately show ?thesis by auto
qed

theorem domain_type_ids_start_at_8_witness:
  "StateRecoveryManager_init example_runtime ([] @ Point # []) ''p3pp3r'' (Some ''k'')
     default_otp_interval default_max_objects default_max_object_length None None = Inr example_manager
   \<and> Point \<notin> set ([] @ [PyDecimal, PyDatetime, PyDate, PyTime])
   \<and> create_serializer example_runtime example_manager ''salt'' (Some 1000) = Inr example_serializer
   \<and> type_of (VObj Point [(''x'', VInt 1), (''y'', VInt 2)]) = Point
   \<and> serialize example_runtime example_serializer ''pos'' (VObj Point [(''x'', VInt 1), (''y'', VInt 2)])
       = Inr (''8'', ''eyJ4IjoxLCJ5IjoyfQ=='',
              sign_serialization example_runtime example_serializer ''pos'' ''8'' ''{\"x\":1,\"y\":2}'')"
proof -
  let ?p = "VObj Point [(''x'', VInt 1), (''y'', VInt 2)]"
  have i: "StateRecoveryManager_init example_runtime ([] @ Point # []) ''p3pp3r'' (Some ''k'')
     default_otp_interval default_max_objects default_max_object_length None None = Inr example_manager"
    using example_manager_init by simp
  have n: "Point \<notin> set ([] @ [PyDecimal, PyDatetime, PyDate, PyTime])" by (simp add: Point_def)
  have b: "base64_urlsafe_b64encode ''{\"x\":1,\"y\":2}'' = ''eyJ4IjoxLCJ5IjoyfQ==''" by code_simp
  have "\<exists>type_id. serialize example_runtime example_serializer ''pos'' ?p
          = Inr (type_id, ''eyJ4IjoxLCJ5IjoyfQ=='',
                 sign_serialization example_runtime example_serializer ''pos'' type_id ''{\"x\":1,\"y\":2}'')"
    using example_registry_Point dumps_point b
    by (simp add: serialize_def serialize_object_def example_runtime_def cpython_def
        example_serializer_def Point_def Let_def)
  then obtain type_id where s: "serialize example_runtime example_serializer ''pos'' ?p
          = Inr (type_id, ''eyJ4IjoxLCJ5IjoyfQ=='',
                 sign_serialization example_runtime example_serializer ''pos'' type_id ''{\"x\":1,\"y\":2}'')"
    by blast
  have "[] = ([]::pytype list) \<longrightarrow> type_id = ''8''"
    by (rule conjunct2 [OF domain_type_ids_start_at_8 [OF i n example_serializer_created _ _ s]])
       simp_all
  then have "type_id = ''8''" by simp
  with i n s example_serializer_created show ?thesis by simp
qed

text \<open>
  C7, the claim as stated: in the concrete scenario the token of the \<^verbatim>\<open>Point\<close> carries the
  identifier \<^verbatim>\<open>"8"\<close>, not \<^verbatim>\<open>"9"\<close>.
\<close>

theorem point_type_id_is_8_not_9:
  "StateRecoveryManager_init example_runtime [Point] ''p3pp3r'' (Some ''k'') default_otp_interval
     default_max_objects default_max_object_length None None = Inr example_manager
   \<and> create_serializer example_runtime example_manager ''salt'' (Some 1000) = Inr example_serializer
   \<and> map_sum id fst
        (serialize example_runtime example_serializer ''pos'' (VObj Point [(''x'', VInt 1), (''y'', VInt 2)]))
       = Inr ''8''
   \<and> ''8'' \<noteq> ''9''"
  using example_manager_init example_serializer_created example_registry_Point dumps_point
  by (simp add: serialize_def serialize_object_def example_runtime_def cpython_def
      example_serializer_def Point_def Let_def)

section \<open>Reconstruction\<close>








section \<open>The signature check\<close>







section \<open>Round trip\<close>








end
